theory Spec2Isabelle
  imports Complex_Main
begin

section \<open>Python values as they reach the program\<close>

text \<open>
  The program (\<^verbatim>\<open>main.py\<close>) works on decoded JSON: dictionaries, lists, strings, numbers,
  booleans and \<^verbatim>\<open>None\<close>. Every raise of the source is a value \<open>Inl e\<close> of the model.

  Strings are lists of characters. Case mapping and the whitespace class are those of the
  ASCII range, where \<^verbatim>\<open>str.strip\<close>, \<^verbatim>\<open>str.split\<close> and the pattern \<^verbatim>\<open>\s\<close> agree on the ten
  characters 0x09-0x0D, 0x1C-0x1F and 0x20; characters beyond ASCII are taken to have no
  case and not to be whitespace.
\<close>

datatype py_error =
  TypeError | ValueError | KeyError | IndexError | AttributeError | OverflowError
  | ValidationError | RequestError

subsection \<open>Strings\<close>

definition is_space :: "char \<Rightarrow> bool" where
  "is_space c \<longleftrightarrow> c \<in> set [CHR 0x09, CHR 0x0A, CHR 0x0B, CHR 0x0C, CHR 0x0D,
                            CHR 0x1C, CHR 0x1D, CHR 0x1E, CHR 0x1F, CHR '' '']"

definition upper_letters :: string where
  "upper_letters = ''ABCDEFGHIJKLMNOPQRSTUVWXYZ''"

definition lower_letters :: string where
  "lower_letters = ''abcdefghijklmnopqrstuvwxyz''"

definition lower_chr :: "char \<Rightarrow> char" where
  "lower_chr c = (case map_of (zip upper_letters lower_letters) c of Some d \<Rightarrow> d | None \<Rightarrow> c)"

definition upper_chr :: "char \<Rightarrow> char" where
  "upper_chr c = (case map_of (zip lower_letters upper_letters) c of Some d \<Rightarrow> d | None \<Rightarrow> c)"

text \<open>\<^verbatim>\<open>s.lower()\<close>, \<^verbatim>\<open>s.upper()\<close>\<close>

definition lower :: "string \<Rightarrow> string" where
  "lower s = map lower_chr s"

definition upper :: "string \<Rightarrow> string" where
  "upper s = map upper_chr s"

text \<open>\<^verbatim>\<open>s.strip()\<close>\<close>

definition lstrip :: "string \<Rightarrow> string" where
  "lstrip s = dropWhile is_space s"

definition rstrip :: "string \<Rightarrow> string" where
  "rstrip s = rev (dropWhile is_space (rev s))"

definition strip :: "string \<Rightarrow> string" where
  "strip s = rstrip (lstrip s)"

text \<open>
  \<^verbatim>\<open>s.split()\<close>: the maximal runs of non-whitespace characters, in order. The first
  argument is the token being read.
\<close>

fun split_acc :: "string \<Rightarrow> string \<Rightarrow> string list" where
  "split_acc tok [] = (if tok = [] then [] else [tok])"
| "split_acc tok (c # cs) =
     (if is_space c then (if tok = [] then split_acc [] cs else tok # split_acc [] cs)
      else split_acc (tok @ [c]) cs)"

definition split :: "string \<Rightarrow> string list" where
  "split s = split_acc [] s"

text \<open>\<^verbatim>\<open>re.sub(r"\s+", " ", s)\<close>: every maximal run of whitespace becomes one space.\<close>

fun sub_ws :: "string \<Rightarrow> string" where
  "sub_ws [] = []"
| "sub_ws [c] = (if is_space c then '' '' else [c])"
| "sub_ws (c # d # cs) =
     (if is_space c then (if is_space d then sub_ws (d # cs) else CHR '' '' # sub_ws (d # cs))
      else c # sub_ws (d # cs))"

text \<open>\<^verbatim>\<open>s.replace('"', '')\<close>\<close>

definition remove_quotes :: "string \<Rightarrow> string" where
  "remove_quotes s = filter (\<lambda>c. c \<noteq> CHR 0x22) s"

text \<open>\<^verbatim>\<open>str(n)\<close> for a non-negative integer: its decimal digits.\<close>

definition digit_chr :: "nat \<Rightarrow> char" where
  "digit_chr d = ''0123456789'' ! d"

fun str_nat :: "nat \<Rightarrow> string" where
  "str_nat n = (if n < 10 then [digit_chr n] else str_nat (n div 10) @ [digit_chr (n mod 10)])"

declare str_nat.simps [simp del]

subsection \<open>Floats\<close>

text \<open>
  A finite float is represented by the rational number it denotes; the rounding of IEEE
  doubles onto 53 bits is not modelled, so the values computed by \<open>float\<close> and \<open>round\<close>
  are the exact ones. What decides control flow is modelled as Python has it: the two
  infinities and NaN, zero being false, comparisons with NaN being false, and the
  \<^verbatim>\<open>OverflowError\<close> of \<^verbatim>\<open>float(n)\<close> for an integer beyond the double range.
\<close>

datatype pyfloat = Finite rat | PosInf | NegInf | NaN

definition float_of_int :: "int \<Rightarrow> py_error + pyfloat" where
  "float_of_int n =
     (if \<bar>n\<bar> \<ge> 2 ^ 1024 - 2 ^ 970 then Inl OverflowError else Inr (Finite (of_int n)))"

definition round_half_even :: "rat \<Rightarrow> int" where
  "round_half_even y =
     (let f = \<lfloor>y\<rfloor>; d = y - of_int f
      in if d < 1 / 2 then f else if d > 1 / 2 then f + 1 else if even f then f else f + 1)"

text \<open>\<^verbatim>\<open>round(x, 1)\<close>: a float that is not finite is returned as it is.\<close>

fun round1 :: "pyfloat \<Rightarrow> pyfloat" where
  "round1 (Finite q) = Finite (of_int (round_half_even (q * 10)) / 10)"
| "round1 x = x"

text \<open>
  \<^verbatim>\<open>float(s)\<close> for a string: whitespace is stripped, underscores are accepted between
  digits only, and what remains is a sign, then \<^verbatim>\<open>inf\<close>, \<^verbatim>\<open>infinity\<close> or \<^verbatim>\<open>nan\<close> in any case, or
  a decimal literal with an optional fraction and exponent.
\<close>

definition is_digit :: "char \<Rightarrow> bool" where
  "is_digit c \<longleftrightarrow> c \<in> set ''0123456789''"

definition digit_val :: "char \<Rightarrow> nat" where
  "digit_val c =
     (case map_of (zip ''0123456789'' [0, 1, 2, 3, 4, 5, 6, 7, 8, 9]) c of
        Some d \<Rightarrow> d | None \<Rightarrow> 0)"

definition nat_of_digits :: "string \<Rightarrow> nat" where
  "nat_of_digits ds = foldl (\<lambda>a c. 10 * a + digit_val c) 0 ds"

text \<open>The second argument is the previous character, if any.\<close>

fun drop_underscores :: "string \<Rightarrow> char option \<Rightarrow> string option" where
  "drop_underscores [] prev = (if prev = Some CHR ''_'' then None else Some [])"
| "drop_underscores (c # cs) prev =
     (if c = CHR ''_'' then
        (case prev of
           None \<Rightarrow> None
         | Some p \<Rightarrow> if is_digit p then drop_underscores cs (Some c) else None)
      else if prev = Some CHR ''_'' \<and> \<not> is_digit c then None
      else map_option ((#) c) (drop_underscores cs (Some c)))"

definition take_sign :: "string \<Rightarrow> bool \<times> string" where
  "take_sign s =
     (case s of
        [] \<Rightarrow> (False, [])
      | c # cs \<Rightarrow> if c = CHR ''-'' then (True, cs) else if c = CHR ''+'' then (False, cs)
                 else (False, s))"

definition parse_exponent :: "string \<Rightarrow> int option" where
  "parse_exponent s =
     (case s of
        [] \<Rightarrow> Some 0
      | c # cs \<Rightarrow>
          if c = CHR ''e'' \<or> c = CHR ''E'' then
            (let (neg, ds) = take_sign cs
             in if ds \<noteq> [] \<and> list_all is_digit ds
                then Some (if neg then - int (nat_of_digits ds) else int (nat_of_digits ds))
                else None)
          else None)"

definition parse_decimal :: "string \<Rightarrow> rat option" where
  "parse_decimal s =
     (let ip = takeWhile is_digit s; r1 = dropWhile is_digit s;
          has_point = (r1 \<noteq> [] \<and> hd r1 = CHR ''.'');
          fp = (if has_point then takeWhile is_digit (tl r1) else []);
          r2 = (if has_point then dropWhile is_digit (tl r1) else r1)
      in if ip = [] \<and> fp = [] then None
         else (case parse_exponent r2 of
                 None \<Rightarrow> None
               | Some e \<Rightarrow>
                   Some (of_nat (nat_of_digits (ip @ fp)) * 10 powi (e - int (length fp)))))"

definition float_of_str :: "string \<Rightarrow> py_error + pyfloat" where
  "float_of_str s =
     (let s1 = strip s in
      case (if CHR ''_'' \<in> set s1 then drop_underscores s1 None else Some s1) of
        None \<Rightarrow> Inl ValueError
      | Some s2 \<Rightarrow>
          (let (neg, body) = take_sign s2 in
           if lower body = ''inf'' \<or> lower body = ''infinity''
           then Inr (if neg then NegInf else PosInf)
           else if lower body = ''nan'' then Inr NaN
           else (case parse_decimal body of
                   None \<Rightarrow> Inl ValueError
                 | Some q \<Rightarrow> Inr (Finite (if neg then - q else q)))))"

subsection \<open>Decoded JSON\<close>

datatype json =
  JNull | JBool bool | JInt int | JFloat pyfloat | JStr string
  | JArr "json list" | JObj "(string \<times> json) list"

text \<open>Truth value of an object, as \<^verbatim>\<open>if x\<close>, \<^verbatim>\<open>x or y\<close> and \<^verbatim>\<open>x and y\<close> test it.\<close>

fun truthy :: "json \<Rightarrow> bool" where
  "truthy JNull = False"
| "truthy (JBool b) = b"
| "truthy (JInt n) = (n \<noteq> 0)"
| "truthy (JFloat x) = (x \<noteq> Finite 0)"
| "truthy (JStr s) = (s \<noteq> [])"
| "truthy (JArr xs) = (xs \<noteq> [])"
| "truthy (JObj kvs) = (kvs \<noteq> [])"

text \<open>\<^verbatim>\<open>x[k]\<close> with a string key: only a dictionary can answer.\<close>

fun subscript :: "json \<Rightarrow> string \<Rightarrow> py_error + json" where
  "subscript (JObj kvs) k = (case map_of kvs k of None \<Rightarrow> Inl KeyError | Some v \<Rightarrow> Inr v)"
| "subscript _ k = Inl TypeError"

text \<open>\<^verbatim>\<open>x.get(k, d)\<close>: only a dictionary has the method.\<close>

fun dict_get :: "json \<Rightarrow> string \<Rightarrow> json \<Rightarrow> py_error + json" where
  "dict_get (JObj kvs) k d = (case map_of kvs k of None \<Rightarrow> Inr d | Some v \<Rightarrow> Inr v)"
| "dict_get _ k d = Inl AttributeError"

text \<open>\<^verbatim>\<open>float(x)\<close>\<close>

fun py_float :: "json \<Rightarrow> py_error + pyfloat" where
  "py_float (JBool b) = Inr (Finite (if b then 1 else 0))"
| "py_float (JInt n) = float_of_int n"
| "py_float (JFloat x) = Inr x"
| "py_float (JStr s) = float_of_str s"
| "py_float _ = Inl TypeError"

text \<open>\<^verbatim>\<open>x > 0\<close> and \<^verbatim>\<open>x >= 0\<close>: numbers and booleans compare with an integer, nothing else does.\<close>

fun float_gt0 :: "pyfloat \<Rightarrow> bool" where
  "float_gt0 (Finite q) = (q > 0)"
| "float_gt0 PosInf = True"
| "float_gt0 _ = False"

fun float_ge0 :: "pyfloat \<Rightarrow> bool" where
  "float_ge0 (Finite q) = (q \<ge> 0)"
| "float_ge0 PosInf = True"
| "float_ge0 _ = False"

fun gt_zero :: "json \<Rightarrow> py_error + bool" where
  "gt_zero (JBool b) = Inr b"
| "gt_zero (JInt n) = Inr (n > 0)"
| "gt_zero (JFloat x) = Inr (float_gt0 x)"
| "gt_zero _ = Inl TypeError"

fun ge_zero :: "json \<Rightarrow> py_error + bool" where
  "ge_zero (JBool b) = Inr True"
| "ge_zero (JInt n) = Inr (n \<ge> 0)"
| "ge_zero (JFloat x) = Inr (float_ge0 x)"
| "ge_zero _ = Inl TypeError"

text \<open>Sequencing of computations that may raise.\<close>

definition bind :: "py_error + 'a \<Rightarrow> ('a \<Rightarrow> py_error + 'b) \<Rightarrow> py_error + 'b" where
  "bind m f = (case m of Inl e \<Rightarrow> Inl e | Inr x \<Rightarrow> f x)"

section \<open>The program\<close>

subsection \<open>Data models and the outside world\<close>

text \<open>
  The pydantic models \<^verbatim>\<open>Review\<close> (fields \<^verbatim>\<open>rating\<close>, \<^verbatim>\<open>text\<close>, \<^verbatim>\<open>course\<close>, \<^verbatim>\<open>date\<close>) and
  \<^verbatim>\<open>ProfessorData\<close>.
\<close>

record Review =
  review_rating :: pyfloat
  review_text :: string
  review_course :: "string option"
  review_date :: "string option"

record ProfessorData =
  name :: string
  rating :: pyfloat
  difficulty :: "pyfloat option"
  wouldTakeAgain :: "pyfloat option"
  numRatings :: "int option"
  department :: "string option"
  summary :: string
  reviews :: "Review list"

text \<open>
  The dictionary that \<^verbatim>\<open>fetch_reviews\<close> builds for a review, with the keys \<^verbatim>\<open>rating\<close>,
  \<^verbatim>\<open>text\<close>, \<^verbatim>\<open>course\<close> and \<^verbatim>\<open>date\<close>; the last two hold what the upstream record held, or
  \<^verbatim>\<open>None\<close>.
\<close>

record review_dict =
  dict_rating :: pyfloat
  dict_text :: string
  dict_course :: json
  dict_date :: json

text \<open>
  The requests the program sends: the two GraphQL queries, with the values their templates
  are filled with, and the two \<^verbatim>\<open>messages.create\<close> calls, with their user content.
\<close>

datatype call =
  SearchTeachers string string
  | TeacherRatings json int
  | Moderate string
  | Summarize string

text \<open>
  What the program does not control. A service answers a request knowing the calls made
  before it, so the same request may be answered differently at different times.
  \<^item> \<open>anthropic_client\<close>: whether the module-level client exists (an API key was set);
  \<^item> \<open>rmp_post\<close>: \<^verbatim>\<open>requests.post\<close>, \<^verbatim>\<open>raise_for_status\<close> and \<^verbatim>\<open>resp.json()\<close>: the decoded
    body, or the exception raised;
  \<^item> \<open>messages_create\<close>: \<^verbatim>\<open>messages.create(...)\<close> followed by \<^verbatim>\<open>.content[0].text\<close>: the text
    of the first block, or the exception raised by either;
  \<^item> \<open>coerce_str\<close>, \<open>coerce_int\<close>: what pydantic makes of a value that is neither \<^verbatim>\<open>None\<close>
    nor of the declared type, for a field declared \<^verbatim>\<open>Optional[str]\<close> or \<^verbatim>\<open>Optional[int]\<close>
    (\<open>None\<close>: validation fails); this depends on the version of the library.
\<close>

record env =
  anthropic_client :: bool
  rmp_post :: "call list \<Rightarrow> call \<Rightarrow> py_error + json"
  messages_create :: "call list \<Rightarrow> call \<Rightarrow> py_error + string"
  coerce_str :: "json \<Rightarrow> string option"
  coerce_int :: "json \<Rightarrow> int option"

definition UWT_SCHOOL_ID :: string where
  "UWT_SCHOOL_ID = ''U2Nob29sLTQ3NDQ=''"

text \<open>Iterating over a value: a list gives its items, a dictionary its keys, a string its
  characters; nothing else can be iterated.\<close>

fun iterate :: "json \<Rightarrow> py_error + json list" where
  "iterate (JArr xs) = Inr xs"
| "iterate (JObj kvs) = Inr (map JStr (remdups (map fst kvs)))"
| "iterate (JStr s) = Inr (map (\<lambda>c. JStr [c]) s)"
| "iterate _ = Inl TypeError"

text \<open>\<^verbatim>\<open>body[k1][k2][k3][k4]\<close>\<close>

fun subscripts :: "json \<Rightarrow> string list \<Rightarrow> py_error + json" where
  "subscripts v [] = Inr v"
| "subscripts v (k # ks) = bind (subscript v k) (\<lambda>w. subscripts w ks)"

subsection \<open>\<^verbatim>\<open>search_professor\<close>\<close>

text \<open>The condition of the comprehension, \<^verbatim>\<open>e["node"]["numRatings"] > 0\<close>.\<close>

definition edge_rated :: "json \<Rightarrow> py_error + bool" where
  "edge_rated e = bind (subscripts e [''node'', ''numRatings'']) gt_zero"

text \<open>\<^verbatim>\<open>rated = [e["node"] for e in edges if e["node"]["numRatings"] > 0]\<close>\<close>

fun rated_nodes :: "json list \<Rightarrow> py_error + json list" where
  "rated_nodes [] = Inr []"
| "rated_nodes (e # es) =
     bind (edge_rated e) (\<lambda>b.
       if b then bind (subscript e ''node'') (\<lambda>n. bind (rated_nodes es) (\<lambda>r. Inr (n # r)))
       else rated_nodes es)"

text \<open>\<^verbatim>\<open>prof[k].lower().strip()\<close>: only a string has the method \<^verbatim>\<open>lower\<close>.\<close>

definition lower_strip_field :: "json \<Rightarrow> string \<Rightarrow> py_error + string" where
  "lower_strip_field prof k =
     bind (subscript prof k) (\<lambda>v.
       case v of JStr s \<Rightarrow> Inr (strip (lower s)) | _ \<Rightarrow> Inl AttributeError)"

text \<open>The loop \<^verbatim>\<open>for prof in rated\<close>, returning at the first match.\<close>

fun first_match :: "string list \<Rightarrow> json list \<Rightarrow> py_error + json option" where
  "first_match name_parts [] = Inr None"
| "first_match name_parts (prof # rest) =
     bind (lower_strip_field prof ''firstName'') (\<lambda>first.
     bind (lower_strip_field prof ''lastName'') (\<lambda>last.
       if last \<in> set name_parts \<and> first \<in> set name_parts then Inr (Some prof)
       else first_match name_parts rest))"

text \<open>The part of \<^verbatim>\<open>search_professor\<close> after the request: from \<^verbatim>\<open>edges\<close> to the result.\<close>

definition match_edges :: "string \<Rightarrow> json \<Rightarrow> py_error + json option" where
  "match_edges name_str edges =
     (if \<not> truthy edges then Inr None
      else bind (iterate edges) (\<lambda>es.
           bind (rated_nodes es) (\<lambda>rated.
             if rated = [] then Inr None
             else first_match (split (lower name_str)) rated)))"

text \<open>
  The request and its \<^verbatim>\<open>try\<close> block: any exception of the request or of the four subscripts
  is caught, and \<^verbatim>\<open>None\<close> is returned.
\<close>

definition search_professor ::
  "env \<Rightarrow> call list \<Rightarrow> string \<Rightarrow> (py_error + json option) \<times> call list" where
  "search_professor ev calls name_str =
     (let req = SearchTeachers (remove_quotes name_str) UWT_SCHOOL_ID;
          tried = bind (rmp_post ev calls req)
                    (\<lambda>body. subscripts body [''data'', ''newSearch'', ''teachers'', ''edges''])
      in (case tried of
            Inl e \<Rightarrow> Inr None
          | Inr edges \<Rightarrow> match_edges name_str edges,
          calls @ [req]))"

subsection \<open>\<^verbatim>\<open>fetch_reviews\<close>\<close>

text \<open>\<^verbatim>\<open>x or y\<close>\<close>

definition py_or :: "json \<Rightarrow> json \<Rightarrow> json" where
  "py_or x y = (if truthy x then x else y)"

text \<open>\<^verbatim>\<open>(node.get("comment") or "").strip()\<close>: only a string has the method \<^verbatim>\<open>strip\<close>.\<close>

definition comment_of :: "json \<Rightarrow> py_error + string" where
  "comment_of node =
     bind (dict_get node ''comment'' JNull) (\<lambda>c.
       case py_or c (JStr []) of
         JStr s \<Rightarrow> Inr (strip s)
       | _ \<Rightarrow> Inl AttributeError)"

text \<open>
  \<^verbatim>\<open>raw_date[:10] if raw_date else None\<close>: a string and a list can be sliced; a number
  cannot, and a dictionary does not take a slice as a key.
\<close>

definition short_date_of :: "json \<Rightarrow> py_error + json" where
  "short_date_of raw_date =
     (if truthy raw_date then
        (case raw_date of
           JStr s \<Rightarrow> Inr (JStr (take 10 s))
         | JArr xs \<Rightarrow> Inr (JArr (take 10 xs))
         | _ \<Rightarrow> Inl TypeError)
      else Inr JNull)"

text \<open>The body of the loop over \<^verbatim>\<open>edges\<close>: \<open>None\<close> is \<^verbatim>\<open>continue\<close>, \<open>Some d\<close> is the
  dictionary appended.\<close>

definition sanitize_edge :: "json \<Rightarrow> py_error + review_dict option" where
  "sanitize_edge edge =
     bind (subscript edge ''node'') (\<lambda>node.
     bind (comment_of node) (\<lambda>comment.
       if comment = [] then Inr None
       else
         bind (dict_get node ''date'' (JStr [])) (\<lambda>raw_date.
         bind (short_date_of raw_date) (\<lambda>short_date.
         bind (dict_get node ''qualityRating'' JNull) (\<lambda>q.
         bind (py_float (py_or q (JInt 0))) (\<lambda>r.
         bind (dict_get node ''class'' JNull) (\<lambda>cls.
           Inr (Some \<lparr>dict_rating = r, dict_text = comment,
                      dict_course = py_or cls JNull, dict_date = short_date\<rparr>))))))))"

fun sanitize_edges :: "json list \<Rightarrow> py_error + review_dict list" where
  "sanitize_edges [] = Inr []"
| "sanitize_edges (edge # rest) =
     bind (sanitize_edge edge) (\<lambda>r.
     bind (sanitize_edges rest) (\<lambda>rs.
       Inr (case r of None \<Rightarrow> rs | Some d \<Rightarrow> d # rs)))"

definition fetch_reviews ::
  "env \<Rightarrow> call list \<Rightarrow> json \<Rightarrow> int \<Rightarrow> (py_error + review_dict list) \<times> call list" where
  "fetch_reviews ev calls professor_id count =
     (let req = TeacherRatings professor_id count;
          tried = bind (rmp_post ev calls req)
                    (\<lambda>body. subscripts body [''data'', ''node'', ''ratings'', ''edges''])
      in (case tried of
            Inl e \<Rightarrow> Inr []
          | Inr edges \<Rightarrow> bind (iterate edges) sanitize_edges,
          calls @ [req]))"

subsection \<open>\<^verbatim>\<open>is_abusive\<close>, \<^verbatim>\<open>summarize_reviews\<close>, \<^verbatim>\<open>_fallback_summary\<close>\<close>

text \<open>
  The \<^verbatim>\<open>try\<close> block of \<^verbatim>\<open>is_abusive\<close> is the computation \<open>tried\<close>; the handler logs and falls
  through to \<^verbatim>\<open>return False\<close>, as does a response that is not \<^verbatim>\<open>YES\<close>.
\<close>

definition is_abusive :: "env \<Rightarrow> call list \<Rightarrow> string \<Rightarrow> (py_error + bool) \<times> call list" where
  "is_abusive ev calls txt =
     (if \<not> anthropic_client ev then (Inr False, calls)
      else
        (let req = Moderate (take 512 txt);
             tried = bind (messages_create ev calls req)
                       (\<lambda>t. Inr (upper (strip t) = ''YES''))
         in (case tried of Inl e \<Rightarrow> Inr False | Inr b \<Rightarrow> Inr b, calls @ [req])))"

definition fallback_summary :: "string list \<Rightarrow> string" where
  "fallback_summary review_texts =
     (if review_texts = [] then ''No reviews available to summarize.''
      else
        (let count = length review_texts
         in ''Based on '' @ str_nat count @ '' student review''
            @ (if count \<noteq> 1 then ''s'' else [])
            @ '' from Rate My Professor. '' @ ''See individual reviews below for details.''))"

text \<open>\<^verbatim>\<open>"\n".join([f"{i+1}. \"{text}\"" for i, text in enumerate(review_texts)])\<close>\<close>

fun join :: "string \<Rightarrow> string list \<Rightarrow> string" where
  "join sep [] = []"
| "join sep [x] = x"
| "join sep (x # y # ys) = x @ sep @ join sep (y # ys)"

definition numbered_reviews :: "string list \<Rightarrow> string" where
  "numbered_reviews review_texts =
     join [CHR 0x0A]
       (map (\<lambda>(i, t). str_nat (i + 1) @ ''. '' @ [CHR 0x22] @ t @ [CHR 0x22])
            (enumerate 0 review_texts))"

text \<open>\<^verbatim>\<open>f"Here are the student reviews:\n\n{numbered}\n\nPlease summarize these reviews."\<close>\<close>

definition user_message :: "string list \<Rightarrow> string" where
  "user_message review_texts =
     ''Here are the student reviews:'' @ [CHR 0x0A, CHR 0x0A]
     @ numbered_reviews review_texts @ [CHR 0x0A, CHR 0x0A]
     @ ''Please summarize these reviews.''"

text \<open>
  The condition \<^verbatim>\<open>not anthropic_client or not review_texts\<close> is evaluated left to right.
\<close>

definition summarize_reviews ::
  "env \<Rightarrow> call list \<Rightarrow> string list \<Rightarrow> (py_error + string) \<times> call list" where
  "summarize_reviews ev calls review_texts =
     (if \<not> anthropic_client ev then (Inr (fallback_summary review_texts), calls)
      else if review_texts = [] then (Inr (fallback_summary review_texts), calls)
      else
        (let req = Summarize (user_message review_texts)
         in (case messages_create ev calls req of
               Inl e \<Rightarrow> Inr (fallback_summary review_texts)
             | Inr t \<Rightarrow> Inr (strip t),
             calls @ [req])))"

subsection \<open>The cache and \<^verbatim>\<open>get_professor\<close>\<close>

definition cache_key :: "string \<Rightarrow> string" where
  "cache_key name_str = sub_ws (lower (strip name_str))"

text \<open>The state of the process: the dictionary \<^verbatim>\<open>_cache\<close>, and the calls made so far.\<close>

record world =
  cache :: "string \<rightharpoonup> ProfessorData"
  calls_made :: "call list"

text \<open>
  How a request ends other than with a record: an \<^verbatim>\<open>HTTPException\<close> with its status and
  detail, or an exception that nothing catches.
\<close>

datatype failure = HTTPException nat string | Uncaught py_error

text \<open>\<^verbatim>\<open>[r for r in raw_reviews if not is_abusive(r["text"])]\<close>, one call after the other.\<close>

fun keep_clean ::
  "env \<Rightarrow> call list \<Rightarrow> review_dict list \<Rightarrow> (py_error + review_dict list) \<times> call list" where
  "keep_clean ev calls [] = (Inr [], calls)"
| "keep_clean ev calls (r # rs) =
     (case is_abusive ev calls (dict_text r) of
        (Inl e, calls1) \<Rightarrow> (Inl e, calls1)
      | (Inr abusive, calls1) \<Rightarrow>
          (case keep_clean ev calls1 rs of
             (Inl e, calls2) \<Rightarrow> (Inl e, calls2)
           | (Inr kept, calls2) \<Rightarrow> (Inr (if abusive then kept else r # kept), calls2)))"

text \<open>Validation of a field declared \<^verbatim>\<open>Optional[str]\<close> or \<^verbatim>\<open>Optional[int]\<close>.\<close>

definition validate_opt_str :: "env \<Rightarrow> json \<Rightarrow> py_error + string option" where
  "validate_opt_str ev v =
     (case v of
        JNull \<Rightarrow> Inr None
      | JStr s \<Rightarrow> Inr (Some s)
      | _ \<Rightarrow> (case coerce_str ev v of None \<Rightarrow> Inl ValidationError | Some s \<Rightarrow> Inr (Some s)))"

definition validate_opt_int :: "env \<Rightarrow> json \<Rightarrow> py_error + int option" where
  "validate_opt_int ev v =
     (case v of
        JNull \<Rightarrow> Inr None
      | JInt n \<Rightarrow> Inr (Some n)
      | _ \<Rightarrow> (case coerce_int ev v of None \<Rightarrow> Inl ValidationError | Some n \<Rightarrow> Inr (Some n)))"

text \<open>\<^verbatim>\<open>Review(**r)\<close>\<close>

definition make_review :: "env \<Rightarrow> review_dict \<Rightarrow> py_error + Review" where
  "make_review ev r =
     bind (validate_opt_str ev (dict_course r)) (\<lambda>c.
     bind (validate_opt_str ev (dict_date r)) (\<lambda>d.
       Inr \<lparr>review_rating = dict_rating r, review_text = dict_text r,
            review_course = c, review_date = d\<rparr>))"

fun make_reviews :: "env \<Rightarrow> review_dict list \<Rightarrow> py_error + Review list" where
  "make_reviews ev [] = Inr []"
| "make_reviews ev (r # rs) =
     bind (make_review ev r) (\<lambda>x. bind (make_reviews ev rs) (\<lambda>xs. Inr (x # xs)))"

text \<open>
  \<^verbatim>\<open>f"{prof['firstName']} {prof['lastName']}"\<close>. Both values are strings when the candidate
  comes from \<^verbatim>\<open>search_professor\<close>, which has called \<^verbatim>\<open>lower\<close> on them; \<^verbatim>\<open>str\<close> of a value of
  another type is not modelled.
\<close>

definition full_name :: "json \<Rightarrow> py_error + string" where
  "full_name prof =
     bind (subscript prof ''firstName'') (\<lambda>f.
     bind (subscript prof ''lastName'') (\<lambda>l.
       case (f, l) of
         (JStr first_name, JStr last_name) \<Rightarrow> Inr (first_name @ '' '' @ last_name)
       | _ \<Rightarrow> Inl TypeError))"

text \<open>\<^verbatim>\<open>round(float(prof["difficulty"]), 1) if prof.get("difficulty") else None\<close>\<close>

definition difficulty_of :: "json \<Rightarrow> py_error + pyfloat option" where
  "difficulty_of prof =
     bind (dict_get prof ''difficulty'' JNull) (\<lambda>d.
       if truthy d
       then bind (subscript prof ''difficulty'') (\<lambda>v.
            bind (py_float v) (\<lambda>x. Inr (Some (round1 x))))
       else Inr None)"

text \<open>
  \<^verbatim>\<open>round(float(prof["wouldTakeAgainPercent"]), 1)
     if prof.get("wouldTakeAgainPercent") and prof["wouldTakeAgainPercent"] >= 0 else None\<close>
\<close>

definition would_take_again_of :: "json \<Rightarrow> py_error + pyfloat option" where
  "would_take_again_of prof =
     bind (dict_get prof ''wouldTakeAgainPercent'' JNull) (\<lambda>w.
     bind (if truthy w
           then bind (subscript prof ''wouldTakeAgainPercent'') ge_zero
           else Inr False) (\<lambda>cond.
       if cond
       then bind (subscript prof ''wouldTakeAgainPercent'') (\<lambda>v.
            bind (py_float v) (\<lambda>x. Inr (Some (round1 x))))
       else Inr None))"

text \<open>Step 5 of \<^verbatim>\<open>get_professor\<close>: the call \<^verbatim>\<open>ProfessorData(...)\<close>, its arguments in order.\<close>

definition build_result ::
  "env \<Rightarrow> json \<Rightarrow> string \<Rightarrow> review_dict list \<Rightarrow> py_error + ProfessorData" where
  "build_result ev prof summ clean_reviews =
     bind (full_name prof) (\<lambda>nm.
     bind (bind (subscript prof ''rating'') py_float) (\<lambda>rt.
     bind (difficulty_of prof) (\<lambda>df.
     bind (would_take_again_of prof) (\<lambda>wta.
     bind (subscript prof ''numRatings'') (\<lambda>nr.
     bind (dict_get prof ''department'' JNull) (\<lambda>dp.
     bind (make_reviews ev clean_reviews) (\<lambda>rvs.
     bind (validate_opt_int ev nr) (\<lambda>nr'.
     bind (validate_opt_str ev dp) (\<lambda>dp'.
       Inr \<lparr>name = nm, rating = round1 rt, difficulty = df, wouldTakeAgain = wta,
            numRatings = nr', department = dp', summary = summ, reviews = rvs\<rparr>)))))))))"

text \<open>Steps 2 to 5, for the candidate found; the calls made are threaded through.\<close>

definition assemble ::
  "env \<Rightarrow> call list \<Rightarrow> json \<Rightarrow> (py_error + ProfessorData) \<times> call list" where
  "assemble ev calls prof =
     (case subscript prof ''id'' of
        Inl e \<Rightarrow> (Inl e, calls)
      | Inr pid \<Rightarrow>
          (case fetch_reviews ev calls pid 5 of
             (Inl e, calls1) \<Rightarrow> (Inl e, calls1)
           | (Inr raw_reviews, calls1) \<Rightarrow>
               (case keep_clean ev calls1 raw_reviews of
                  (Inl e, calls2) \<Rightarrow> (Inl e, calls2)
                | (Inr clean_reviews, calls2) \<Rightarrow>
                    (case summarize_reviews ev calls2 (map dict_text clean_reviews) of
                       (Inl e, calls3) \<Rightarrow> (Inl e, calls3)
                     | (Inr summ, calls3) \<Rightarrow>
                         (build_result ev prof summ clean_reviews, calls3)))))"

definition not_found_detail :: "string \<Rightarrow> string" where
  "not_found_detail name_str =
     ''No professor found for '' @ [CHR 0x27] @ name_str @ [CHR 0x27] @ '' at UW Tacoma.''"

text \<open>
  The endpoint. The \<^verbatim>\<open>logger\<close> calls are left out; the one after the search reads keys of
  the candidate that \<^verbatim>\<open>search_professor\<close> has read already.
\<close>

definition get_professor ::
  "env \<Rightarrow> world \<Rightarrow> string \<Rightarrow> (failure + ProfessorData) \<times> world" where
  "get_professor ev w name_str =
     (if name_str = [] \<or> strip name_str = []
      then (Inl (HTTPException 400 ''Professor name is required.''), w)
      else
        (let key = cache_key name_str in
         case cache w key of
           Some hit \<Rightarrow> (Inr hit, w)
         | None \<Rightarrow>
             (case search_professor ev (calls_made w) name_str of
                (Inl e, calls1) \<Rightarrow> (Inl (Uncaught e), w\<lparr>calls_made := calls1\<rparr>)
              | (Inr found, calls1) \<Rightarrow>
                  (case (case found of
                           None \<Rightarrow> None
                         | Some prof \<Rightarrow> if truthy prof then Some prof else None) of
                     None \<Rightarrow>
                       (Inl (HTTPException 404 (not_found_detail name_str)),
                        w\<lparr>calls_made := calls1\<rparr>)
                   | Some prof \<Rightarrow>
                       (case assemble ev calls1 prof of
                          (Inl e, calls2) \<Rightarrow> (Inl (Uncaught e), w\<lparr>calls_made := calls2\<rparr>)
                        | (Inr result, calls2) \<Rightarrow>
                            (Inr result,
                             w\<lparr>cache := (cache w)(key \<mapsto> result),
                               calls_made := calls2\<rparr>))))))"

section \<open>The upstream records of the data model\<close>

text \<open>
  The records the two services are specified to return, as predicates on decoded JSON;
  they are hypotheses of theorems below, and no part of the program.
\<close>

text \<open>The value of a key of a raw review, if its node is a dictionary that has the key.\<close>

definition review_field :: "json \<Rightarrow> string \<Rightarrow> json option" where
  "review_field edge k =
     (case subscript edge ''node'' of Inr (JObj kvs) \<Rightarrow> map_of kvs k | _ \<Rightarrow> None)"








text \<open>
  A candidate (the spec's CandidateProfessor) is a dictionary whose \<^verbatim>\<open>firstName\<close> and
  \<^verbatim>\<open>lastName\<close> are strings and whose \<^verbatim>\<open>numRatings\<close> is an integer; \<open>node_of\<close> is the
  candidate that an edge of the search response carries.
\<close>

definition str_field :: "json \<Rightarrow> string \<Rightarrow> string" where
  "str_field c k = (case subscript c k of Inr (JStr s) \<Rightarrow> s | _ \<Rightarrow> [])"

definition int_field :: "json \<Rightarrow> string \<Rightarrow> int" where
  "int_field c k = (case subscript c k of Inr (JInt n) \<Rightarrow> n | _ \<Rightarrow> 0)"

definition is_str :: "py_error + json \<Rightarrow> bool" where
  "is_str v = (case v of Inr (JStr s) \<Rightarrow> True | _ \<Rightarrow> False)"

definition is_int :: "py_error + json \<Rightarrow> bool" where
  "is_int v = (case v of Inr (JInt n) \<Rightarrow> True | _ \<Rightarrow> False)"

definition candidate_ok :: "json \<Rightarrow> bool" where
  "candidate_ok c \<longleftrightarrow>
     is_str (subscript c ''firstName'') \<and> is_str (subscript c ''lastName'')
     \<and> is_int (subscript c ''numRatings'')"

definition node_of :: "json \<Rightarrow> json" where
  "node_of e = (case subscript e ''node'' of Inr c \<Rightarrow> c | Inl err \<Rightarrow> JNull)"

text \<open>
  The name matcher in the words of the spec: a candidate matches when its trimmed,
  lowercased first name and last name are both tokens of the lowercased query; the
  candidates with \<open>numRatings \<le> 0\<close> are discarded, and the first of the others that matches
  is returned.
\<close>

definition confident_match :: "string \<Rightarrow> json \<Rightarrow> bool" where
  "confident_match query c \<longleftrightarrow>
     lower (strip (str_field c ''firstName'')) \<in> set (split (lower query))
     \<and> lower (strip (str_field c ''lastName'')) \<in> set (split (lower query))"

definition name_matcher_spec :: "string \<Rightarrow> json list \<Rightarrow> json option" where
  "name_matcher_spec query cands =
     find (confident_match query) (filter (\<lambda>c. 0 < int_field c ''numRatings'') cands)"

section \<open>Example inputs\<close>

text \<open>
  A candidate as the search service returns it, the two response bodies, a raw review, and
  an outside world that answers every search with the same candidates and every review
  request with the same raw reviews.
\<close>

definition example_candidate :: "string \<Rightarrow> string \<Rightarrow> int \<Rightarrow> json \<Rightarrow> json \<Rightarrow> json" where
  "example_candidate first_name last_name n wta diff =
     JObj [(''id'', JStr ''VGVhY2hlci0x''), (''firstName'', JStr first_name),
           (''lastName'', JStr last_name), (''rating'', JFloat (Finite (42 / 10))),
           (''difficulty'', diff), (''wouldTakeAgainPercent'', wta),
           (''numRatings'', JInt n), (''department'', JStr ''Computer Science'')]"

definition search_body :: "json list \<Rightarrow> json" where
  "search_body cands =
     JObj [(''data'', JObj [(''newSearch'', JObj [(''teachers'',
       JObj [(''edges'', JArr (map (\<lambda>c. JObj [(''node'', c)]) cands))])])])]"

definition ratings_body :: "json list \<Rightarrow> json" where
  "ratings_body edges =
     JObj [(''data'', JObj [(''node'', JObj [(''ratings'', JObj [(''edges'', JArr edges)])])])]"

definition example_review :: "json \<Rightarrow> json \<Rightarrow> json" where
  "example_review comment quality =
     JObj [(''node'', JObj [(''comment'', comment), (''qualityRating'', quality),
                            (''class'', JStr ''TCSS 342''),
                            (''date'', JStr ''2024-03-01 18:22:03 +0000 UTC'')])]"

definition example_env ::
  "json list \<Rightarrow> json list \<Rightarrow> bool \<Rightarrow> py_error + string \<Rightarrow> py_error + string \<Rightarrow> env" where
  "example_env cands edges configured verdict synopsis =
     \<lparr>anthropic_client = configured,
      rmp_post = (\<lambda>cs c. case c of
                     SearchTeachers t s \<Rightarrow> Inr (search_body cands)
                   | TeacherRatings i n \<Rightarrow> Inr (ratings_body edges)
                   | _ \<Rightarrow> Inl RequestError),
      messages_create = (\<lambda>cs c. case c of
                     Moderate t \<Rightarrow> verdict
                   | Summarize t \<Rightarrow> synopsis
                   | _ \<Rightarrow> Inl RequestError),
      coerce_str = (\<lambda>v. None),
      coerce_int = (\<lambda>v. None)\<rparr>"

definition empty_world :: world where
  "empty_world = \<lparr>cache = Map.empty, calls_made = []\<rparr>"

text \<open>The spec's end-to-end example: one rated candidate and two raw reviews, one of them
  with an empty comment; no API key.\<close>

definition jane :: json where
  "jane = example_candidate ''Jane'' ''Doe'' 12 (JInt (- 1)) (JFloat (Finite (31 / 10)))"

definition two_reviews :: "json list" where
  "two_reviews = [example_review (JStr []) (JInt 5),
                  example_review (JStr ''Great lectures, tough exams'') (JInt 4)]"

definition jane_env :: env where
  "jane_env = example_env [jane] two_reviews False (Inl RequestError) (Inl RequestError)"

text \<open>The record expected for the query \<^verbatim>\<open>Jane Doe\<close>, and an outside world in which every
  service fails.\<close>

definition jane_record :: ProfessorData where
  "jane_record =
     \<lparr>name = ''Jane Doe'', rating = Finite (21 / 5), difficulty = Some (Finite (31 / 10)),
      wouldTakeAgain = None, numRatings = Some 12, department = Some ''Computer Science'',
      summary = ''Based on 1 student review from Rate My Professor. ''
                @ ''See individual reviews below for details.'',
      reviews = [\<lparr>review_rating = Finite 4, review_text = ''Great lectures, tough exams'',
                  review_course = Some ''TCSS 342'', review_date = Some ''2024-03-01''\<rparr>]\<rparr>"

definition offline_env :: env where
  "offline_env =
     \<lparr>anthropic_client = True,
      rmp_post = (\<lambda>cs c. Inl RequestError),
      messages_create = (\<lambda>cs c. Inl RequestError),
      coerce_str = (\<lambda>v. None),
      coerce_int = (\<lambda>v. None)\<rparr>"

text \<open>An outside world with an API key, whose classifier answers \<^verbatim>\<open>yes\<close> with a newline
  and whose generator answers with blanks only; a review text of 600 characters.\<close>

definition blank_env :: env where
  "blank_env = example_env [jane] two_reviews True (Inr (''yes'' @ [CHR 0x0A])) (Inr ''  '')"

definition long_text :: string where
  "long_text = replicate 600 CHR ''a''"





text \<open>A candidate whose difficulty and would-take-again percentage are both 0, as an
  integer and as a float, and the worlds that return them.\<close>

definition jane_zero :: json where
  "jane_zero = example_candidate ''Jane'' ''Doe'' 12 (JInt 0) (JInt 0)"

definition jane_zero_float :: json where
  "jane_zero_float =
     example_candidate ''Jane'' ''Doe'' 12 (JFloat (Finite 0)) (JFloat (Finite 0))"

definition zero_env :: env where
  "zero_env = example_env [jane_zero] two_reviews False (Inl RequestError) (Inl RequestError)"

definition zero_float_env :: env where
  "zero_float_env =
     example_env [jane_zero_float] two_reviews False (Inl RequestError) (Inl RequestError)"

text \<open>Candidates for the name matcher: an unrated Jane Doe, a rated John Doe, and two
  rated Jane Does, the first of them with blanks around the names.\<close>

definition matcher_candidates :: "json list" where
  "matcher_candidates =
     [example_candidate ''Jane'' ''Doe'' 0 JNull JNull,
      example_candidate ''John'' ''Doe'' 7 JNull JNull,
      example_candidate '' JANE'' ''Doe '' 3 JNull JNull,
      example_candidate ''Jane'' ''Doe'' 12 JNull JNull]"

definition matcher_edges :: "json list" where
  "matcher_edges = map (\<lambda>c. JObj [(''node'', c)]) matcher_candidates"

section \<open>Properties\<close>

subsection \<open>Computations that may raise\<close>

lemma bind_Inl [simp]: "bind (Inl e) f = Inl e"
  by (simp add: bind_def)

lemma bind_Inr [simp]: "bind (Inr x) f = f x"
  by (simp add: bind_def)

lemma bind_eq_Inr: "bind m f = Inr y \<longleftrightarrow> (\<exists>x. m = Inr x \<and> f x = Inr y)"
  by (cases m) simp_all

subsection \<open>Strings\<close>

lemma dropWhile_all_Nil:
  assumes "\<forall>x \<in> set (dropWhile P xs). P x"
  shows "dropWhile P xs = []"
proof (rule ccontr)
  assume ne: "dropWhile P xs \<noteq> []"
  then have "\<not> P (hd (dropWhile P xs))"
    by (rule hd_dropWhile)
  moreover from ne have "hd (dropWhile P xs) \<in> set (dropWhile P xs)"
    by simp
  ultimately show False
    using assms by blast
qed

lemma strip_eq_Nil: "strip s = [] \<longleftrightarrow> list_all is_space s"
proof
  assume "strip s = []"
  then have "dropWhile is_space (rev (dropWhile is_space s)) = []"
    by (simp add: strip_def rstrip_def lstrip_def)
  then have "\<forall>x \<in> set (rev (dropWhile is_space s)). is_space x"
    by (simp only: dropWhile_eq_Nil_conv)
  then have "\<forall>x \<in> set (dropWhile is_space s). is_space x"
    by (simp only: set_rev)
  then have "dropWhile is_space s = []"
    by (rule dropWhile_all_Nil)
  then have "\<forall>x \<in> set s. is_space x"
    by (simp only: dropWhile_eq_Nil_conv)
  then show "list_all is_space s"
    by (simp add: list_all_iff)
next
  assume "list_all is_space s"
  then have "\<forall>x \<in> set s. is_space x"
    by (simp add: list_all_iff)
  then have "dropWhile is_space s = []"
    by (simp only: dropWhile_eq_Nil_conv)
  then show "strip s = []"
    by (auto simp: strip_def rstrip_def lstrip_def dest: set_dropWhileD)
qed

lemma lower_eq_Nil [simp]: "lower s = [] \<longleftrightarrow> s = []"
  by (simp add: lower_def)

lemma sub_ws_eq_Nil [simp]: "sub_ws s = [] \<longleftrightarrow> s = []"
  by (induction s rule: sub_ws.induct) auto

lemma cache_key_eq_Nil: "cache_key n = [] \<longleftrightarrow> strip n = []"
  by (simp add: cache_key_def)

lemmas string_evals =
  strip_def lstrip_def rstrip_def lower_def upper_def lower_chr_def upper_chr_def
  upper_letters_def lower_letters_def is_space_def split_def cache_key_def remove_quotes_def

subsection \<open>The calls made and the cache\<close>

lemma search_professor_calls:
  "snd (search_professor ev calls n) = calls @ [SearchTeachers (remove_quotes n) UWT_SCHOOL_ID]"
  by (simp add: search_professor_def Let_def)

lemma fetch_reviews_calls:
  "snd (fetch_reviews ev calls pid k) = calls @ [TeacherRatings pid k]"
  by (simp add: fetch_reviews_def Let_def)

lemma is_abusive_calls: "\<exists>rest. snd (is_abusive ev calls txt) = calls @ rest"
  by (simp add: is_abusive_def Let_def)

lemma keep_clean_calls: "\<exists>rest. snd (keep_clean ev calls rs) = calls @ rest"
proof (induction rs arbitrary: calls)
  case Nil
  show ?case by simp
next
  case (Cons r rs)
  obtain out1 calls1 where a: "is_abusive ev calls (dict_text r) = (out1, calls1)"
    by (cases "is_abusive ev calls (dict_text r)")
  with is_abusive_calls [of ev calls "dict_text r"] obtain rest1 where r1: "calls1 = calls @ rest1"
    by auto
  obtain out2 calls2 where k: "keep_clean ev calls1 rs = (out2, calls2)"
    by (cases "keep_clean ev calls1 rs")
  with Cons.IH [of calls1] obtain rest2 where r2: "calls2 = calls1 @ rest2"
    by auto
  from a k r1 r2 show ?case
    by (cases out1; cases out2) auto
qed

lemma summarize_reviews_calls: "\<exists>rest. snd (summarize_reviews ev calls ts) = calls @ rest"
  by (simp add: summarize_reviews_def Let_def)

lemma assemble_calls: "\<exists>rest. snd (assemble ev calls prof) = calls @ rest"
proof -
  show ?thesis
  proof (cases "subscript prof ''id''")
    case (Inl e)
    then show ?thesis by (simp add: assemble_def)
  next
    case (Inr pid)
    obtain o1 c1 where f: "fetch_reviews ev calls pid 5 = (o1, c1)"
      by (cases "fetch_reviews ev calls pid 5")
    with fetch_reviews_calls [of ev calls pid 5] have c1: "c1 = calls @ [TeacherRatings pid 5]"
      by simp
    show ?thesis
    proof (cases o1)
      case (Inl e)
      with Inr f c1 show ?thesis by (simp add: assemble_def)
    next
      case raw: (Inr raw_reviews)
      obtain o2 c2 where k: "keep_clean ev c1 raw_reviews = (o2, c2)"
        by (cases "keep_clean ev c1 raw_reviews")
      with keep_clean_calls [of ev c1 raw_reviews] obtain rest2 where c2: "c2 = c1 @ rest2"
        by auto
      show ?thesis
      proof (cases o2)
        case (Inl e)
        with Inr f c1 raw k c2 show ?thesis by (simp add: assemble_def)
      next
        case clean: (Inr clean_reviews)
        obtain o3 c3 where s: "summarize_reviews ev c2 (map dict_text clean_reviews) = (o3, c3)"
          by (cases "summarize_reviews ev c2 (map dict_text clean_reviews)")
        with summarize_reviews_calls [of ev c2 "map dict_text clean_reviews"]
        obtain rest3 where c3: "c3 = c2 @ rest3"
          by auto
        from Inr f c1 raw k c2 clean s c3 show ?thesis
          by (cases o3) (simp_all add: assemble_def)
      qed
    qed
  qed
qed

lemma strip_Nil [simp]: "strip [] = []"
  by (simp add: strip_def lstrip_def rstrip_def)

lemma get_professor_hit:
  "strip n \<noteq> [] \<Longrightarrow> cache w (cache_key n) = Some r \<Longrightarrow> get_professor ev w n = (Inr r, w)"
  by (auto simp: get_professor_def)

lemma get_professor_success:
  "get_professor ev w n = (Inr r, w') \<Longrightarrow> strip n \<noteq> [] \<and> cache w' (cache_key n) = Some r"
  by (auto simp: get_professor_def Let_def split: if_splits option.splits prod.splits sum.splits)

lemma get_professor_cache:
  "get_professor ev w n = (out, w') \<Longrightarrow>
     cache w' = (case out of Inl f \<Rightarrow> cache w | Inr r \<Rightarrow> (cache w)(cache_key n \<mapsto> r))"
  by (auto simp: get_professor_def Let_def map_upd_triv
      split: if_splits option.splits prod.splits sum.splits)

lemma get_professor_not_found:
  "get_professor ev w n = (Inl (HTTPException 404 d), w') \<Longrightarrow>
     strip n \<noteq> [] \<and> cache w (cache_key n) = None
     \<and> calls_made w' = calls_made w @ [SearchTeachers (remove_quotes n) UWT_SCHOOL_ID]"
  using search_professor_calls [of ev "calls_made w" n]
  by (auto simp: get_professor_def Let_def split: if_splits option.splits prod.splits sum.splits)

lemma get_professor_miss_calls:
  assumes "strip n \<noteq> []" and "cache w (cache_key n) = None"
  shows "\<exists>rest. calls_made (snd (get_professor ev w n))
           = calls_made w @ SearchTeachers (remove_quotes n) UWT_SCHOOL_ID # rest"
proof -
  obtain o1 c1 where s: "search_professor ev (calls_made w) n = (o1, c1)"
    by (cases "search_professor ev (calls_made w) n")
  with search_professor_calls [of ev "calls_made w" n]
  have c1: "c1 = calls_made w @ [SearchTeachers (remove_quotes n) UWT_SCHOOL_ID]"
    by simp
  have a: "\<exists>rest. snd (assemble ev c1 prof) = c1 @ rest" for prof
    by (rule assemble_calls)
  show ?thesis
  proof (cases o1)
    case (Inl e)
    with assms s c1 show ?thesis by (auto simp: get_professor_def)
  next
    case (Inr found)
    show ?thesis
    proof (cases "case found of None \<Rightarrow> None | Some prof \<Rightarrow> if truthy prof then Some prof else None")
      case None
      with assms s c1 Inr show ?thesis by (auto simp: get_professor_def)
    next
      case (Some prof)
      obtain o2 c2 where as: "assemble ev c1 prof = (o2, c2)"
        by (cases "assemble ev c1 prof")
      with a [of prof] obtain rest where "c2 = c1 @ rest"
        by auto
      with assms s c1 Inr Some as show ?thesis
        by (cases o2) (auto simp: get_professor_def)
    qed
  qed
qed

subsection \<open>Client-input errors\<close>

text \<open>
  Claim C8. A query name that is empty or consists of whitespace only ends the request
  with the client-input error (status 400) at once: the world is returned as it was, so no
  service has been called and the cache has not been written; the outcome is the same for
  every cache and every outside world, so the cache has not been read; and the outcome is
  not the not-found outcome (status 404).
\<close>

theorem blank_name_is_client_error:
  "list_all is_space name_str \<Longrightarrow>
     get_professor ev w name_str = (Inl (HTTPException 400 ''Professor name is required.''), w)
     \<and> fst (get_professor ev w name_str) = fst (get_professor ev' w' name_str)
     \<and> fst (get_professor ev w name_str) \<noteq> Inl (HTTPException 404 detail)"
  by (simp add: get_professor_def strip_eq_Nil)

theorem blank_name_is_client_error_witness:
  "list_all is_space ''   ''
   \<and> fst (get_professor jane_env empty_world ''   '')
       = Inl (HTTPException 400 ''Professor name is required.'')
   \<and> calls_made (snd (get_professor jane_env empty_world ''   '')) = []
   \<and> cache (snd (get_professor jane_env empty_world ''   '')) ''jane doe'' = None"
proof -
  have blank: "list_all is_space ''   ''"
    by (simp add: is_space_def)
  from blank_name_is_client_error [OF blank, of jane_env empty_world jane_env empty_world "[]"]
  have "get_professor jane_env empty_world ''   ''
          = (Inl (HTTPException 400 ''Professor name is required.''), empty_world)"
    by blast
  with blank show ?thesis
    by (simp add: empty_world_def)
qed

subsection \<open>Resolution through the cache\<close>

text \<open>
  Claim C5. When a resolution of a name succeeds, a later resolution of any name with the
  same cache key returns the same record and the same world: no call is added to those
  made, whatever the services would answer, and the cache is as it was. The three
  spellings \<^verbatim>\<open>"  Jane   Doe "\<close>, \<^verbatim>\<open>"jane doe"\<close> and \<^verbatim>\<open>"Jane Doe"\<close> have one key.
\<close>

theorem cached_resolution_idempotent:
  assumes "get_professor ev w n1 = (Inr r, w1)" and "cache_key n2 = cache_key n1"
  shows "get_professor ev' w1 n2 = (Inr r, w1)
         \<and> cache_key ''  Jane   Doe '' = cache_key ''jane doe''
         \<and> cache_key ''Jane Doe'' = cache_key ''jane doe''"
proof -
  from assms(1) have n1: "strip n1 \<noteq> []" and hit: "cache w1 (cache_key n1) = Some r"
    using get_professor_success by blast+
  from n1 have "cache_key n1 \<noteq> []"
    by (simp add: cache_key_eq_Nil)
  with assms(2) have "strip n2 \<noteq> []"
    by (simp add: cache_key_eq_Nil [symmetric])
  with hit assms(2) have "get_professor ev' w1 n2 = (Inr r, w1)"
    by (simp add: get_professor_hit)
  moreover have "cache_key ''  Jane   Doe '' = cache_key ''jane doe''"
    by (simp add: string_evals)
  moreover have "cache_key ''Jane Doe'' = cache_key ''jane doe''"
    by (simp add: string_evals)
  ultimately show ?thesis
    by blast
qed

theorem cached_resolution_idempotent_witness:
  "fst (get_professor jane_env empty_world ''  Jane   Doe '') = Inr jane_record
   \<and> cache_key ''jane doe'' = cache_key ''  Jane   Doe ''
   \<and> fst (get_professor offline_env (snd (get_professor jane_env empty_world ''  Jane   Doe ''))
        ''jane doe'') = Inr jane_record
   \<and> calls_made (snd (get_professor offline_env
        (snd (get_professor jane_env empty_world ''  Jane   Doe '')) ''jane doe''))
      = [SearchTeachers ''  Jane   Doe '' UWT_SCHOOL_ID, TeacherRatings (JStr ''VGVhY2hlci0x'') 5]"
proof -
  let ?w1 = "snd (get_professor jane_env empty_world ''  Jane   Doe '')"
  have first: "fst (get_professor jane_env empty_world ''  Jane   Doe '') = Inr jane_record"
    by code_simp
  then have run: "get_professor jane_env empty_world ''  Jane   Doe '' = (Inr jane_record, ?w1)"
    by (simp add: prod_eq_iff)
  have key: "cache_key ''jane doe'' = cache_key ''  Jane   Doe ''"
    by (simp add: string_evals)
  have calls: "calls_made ?w1
      = [SearchTeachers ''  Jane   Doe '' UWT_SCHOOL_ID, TeacherRatings (JStr ''VGVhY2hlci0x'') 5]"
    by code_simp
  from cached_resolution_idempotent [OF run key, of offline_env]
  have "get_professor offline_env ?w1 ''jane doe'' = (Inr jane_record, ?w1)"
    by blast
  with first key calls show ?thesis
    by simp
qed

text \<open>
  Claim C9. A request that ends in an error, of whatever kind, leaves the cache as it was;
  a request that ends with a record leaves the cache with that record stored under the key
  of the name, and nothing else changed. After a not-found outcome the key is still
  absent, so the next request for the same name sends the search request again as its
  first call, whatever the services answer.
\<close>

theorem errors_leave_cache:
  assumes "get_professor ev w n = (out, w')"
  shows "cache w' = (case out of Inl f \<Rightarrow> cache w | Inr r \<Rightarrow> (cache w)(cache_key n \<mapsto> r))
         \<and> (case out of
               Inl (HTTPException status d) \<Rightarrow>
                 if status = 404
                 then cache w' (cache_key n) = None
                      \<and> take (Suc (length (calls_made w')))
                           (calls_made (snd (get_professor ev' w' n)))
                         = calls_made w' @ [SearchTeachers (remove_quotes n) UWT_SCHOOL_ID]
                 else True
             | _ \<Rightarrow> True)"
proof -
  have c: "cache w' = (case out of Inl f \<Rightarrow> cache w | Inr r \<Rightarrow> (cache w)(cache_key n \<mapsto> r))"
    using assms by (rule get_professor_cache)
  have "cache w' (cache_key n) = None
        \<and> take (Suc (length (calls_made w'))) (calls_made (snd (get_professor ev' w' n)))
            = calls_made w' @ [SearchTeachers (remove_quotes n) UWT_SCHOOL_ID]"
    if nf: "out = Inl (HTTPException 404 d)" for d
  proof -
    from assms nf have g: "get_professor ev w n = (Inl (HTTPException 404 d), w')"
      by simp
    from get_professor_not_found [OF g] have n: "strip n \<noteq> []" and miss: "cache w (cache_key n) = None"
      by blast+
    from c nf miss have miss': "cache w' (cache_key n) = None"
      by simp
    from get_professor_miss_calls [OF n miss', of ev'] obtain rest where
      "calls_made (snd (get_professor ev' w' n))
         = calls_made w' @ SearchTeachers (remove_quotes n) UWT_SCHOOL_ID # rest"
      by blast
    then have "take (Suc (length (calls_made w'))) (calls_made (snd (get_professor ev' w' n)))
         = calls_made w' @ [SearchTeachers (remove_quotes n) UWT_SCHOOL_ID]"
      by simp
    with miss' show ?thesis
      by blast
  qed
  with c show ?thesis
    by (auto split: sum.splits failure.splits)
qed

theorem errors_leave_cache_witness:
  "fst (get_professor jane_env empty_world ''Smith'')
     = Inl (HTTPException 404 (not_found_detail ''Smith''))
   \<and> cache (snd (get_professor jane_env empty_world ''Smith'')) = cache empty_world
   \<and> cache (snd (get_professor jane_env empty_world ''Smith'')) (cache_key ''Smith'') = None
   \<and> take 2 (calls_made (snd (get_professor jane_env
         (snd (get_professor jane_env empty_world ''Smith'')) ''Smith'')))
      = [SearchTeachers ''Smith'' UWT_SCHOOL_ID, SearchTeachers ''Smith'' UWT_SCHOOL_ID]"
proof -
  let ?w1 = "snd (get_professor jane_env empty_world ''Smith'')"
  have first: "fst (get_professor jane_env empty_world ''Smith'')
      = Inl (HTTPException 404 (not_found_detail ''Smith''))"
    by code_simp
  then have run: "get_professor jane_env empty_world ''Smith''
      = (Inl (HTTPException 404 (not_found_detail ''Smith'')), ?w1)"
    by (simp add: prod_eq_iff)
  have calls: "calls_made ?w1 = [SearchTeachers ''Smith'' UWT_SCHOOL_ID]"
    by code_simp
  have q: "remove_quotes ''Smith'' = ''Smith''"
    by (simp add: remove_quotes_def)
  from errors_leave_cache [OF run, of jane_env] calls q first show ?thesis
    by (simp add: empty_world_def numeral_2_eq_2)
qed

subsection \<open>Moderation and summaries\<close>

text \<open>
  Claim C7. \<^verbatim>\<open>is_abusive\<close> never raises: its result is a boolean for every text, every
  world and every history of calls. Without a client it answers false and calls nothing;
  with one it sends exactly one request, whose text is the first 512 characters of the
  input at most; it answers false when the call fails; and it answers true exactly when
  the response, trimmed and uppercased, is \<^verbatim>\<open>YES\<close>.
\<close>

theorem is_abusive_never_raises:
  "(\<exists>b. fst (is_abusive ev calls txt) = Inr b)
   \<and> (\<not> anthropic_client ev \<longrightarrow> is_abusive ev calls txt = (Inr False, calls))
   \<and> (anthropic_client ev \<longrightarrow>
         snd (is_abusive ev calls txt) = calls @ [Moderate (take 512 txt)])
   \<and> length (take 512 txt) \<le> 512
   \<and> (\<forall>e. messages_create ev calls (Moderate (take 512 txt)) = Inl e \<longrightarrow>
           fst (is_abusive ev calls txt) = Inr False)
   \<and> (fst (is_abusive ev calls txt) = Inr True \<longleftrightarrow>
         anthropic_client ev
         \<and> (\<exists>t. messages_create ev calls (Moderate (take 512 txt)) = Inr t
                \<and> upper (strip t) = ''YES''))"
  by (cases "messages_create ev calls (Moderate (take 512 txt))")
     (auto simp: is_abusive_def Let_def)

theorem is_abusive_never_raises_witness:
  "fst (is_abusive blank_env [] long_text) = Inr True
   \<and> snd (is_abusive blank_env [] long_text) = [Moderate (replicate 512 CHR ''a'')]
   \<and> fst (is_abusive offline_env [] long_text) = Inr False
   \<and> is_abusive jane_env [] long_text = (Inr False, [])"
proof -
  have cfg: "anthropic_client blank_env" "anthropic_client offline_env"
    "\<not> anthropic_client jane_env"
    by (simp_all add: blank_env_def offline_env_def jane_env_def example_env_def)
  have cut: "take 512 long_text = replicate 512 CHR ''a''"
    by (simp add: long_text_def)
  have yes: "messages_create blank_env [] (Moderate (take 512 long_text))
               = Inr (''yes'' @ [CHR 0x0A])"
    by (simp add: blank_env_def example_env_def)
  have up: "upper (strip (''yes'' @ [CHR 0x0A])) = ''YES''"
    by (simp add: string_evals)
  have down: "messages_create offline_env [] (Moderate (take 512 long_text)) = Inl RequestError"
    by (simp add: offline_env_def)
  from is_abusive_never_raises [of blank_env "[]" long_text] cfg yes up cut
  have a: "fst (is_abusive blank_env [] long_text) = Inr True"
    and b: "snd (is_abusive blank_env [] long_text) = [Moderate (replicate 512 CHR ''a'')]"
    by simp_all
  from is_abusive_never_raises [of offline_env "[]" long_text] down
  have c: "fst (is_abusive offline_env [] long_text) = Inr False"
    by blast
  from is_abusive_never_raises [of jane_env "[]" long_text] cfg
  have d: "is_abusive jane_env [] long_text = (Inr False, [])"
    by blast
  from a b c d show ?thesis
    by blast
qed

lemma str_nat_1: "str_nat (Suc 0) = ''1''"
  by (simp add: str_nat.simps digit_chr_def)

text \<open>
  Claim C4, as amended. \<^verbatim>\<open>summarize_reviews\<close> never raises. For no texts it returns the
  fixed message; for \<open>N > 0\<close> texts, without a client or when the call fails, it returns
  the fallback sentence with \<^verbatim>\<open>1 student review\<close> or \<^verbatim>\<open>N student reviews\<close>; otherwise it
  returns the generator's response trimmed, whatever it is. So the result is the empty
  string exactly when the generator is called and answers with whitespace only.
\<close>

theorem summarize_reviews_result:
  "(\<exists>s. fst (summarize_reviews ev calls ts) = Inr s)
   \<and> (ts = [] \<longrightarrow>
         fst (summarize_reviews ev calls ts) = Inr ''No reviews available to summarize.'')
   \<and> (ts \<noteq> [] \<and> (\<not> anthropic_client ev
                    \<or> (\<exists>e. messages_create ev calls (Summarize (user_message ts)) = Inl e)) \<longrightarrow>
         fst (summarize_reviews ev calls ts)
           = Inr (if length ts = 1
                  then ''Based on 1 student review from Rate My Professor. ''
                       @ ''See individual reviews below for details.''
                  else ''Based on '' @ str_nat (length ts)
                       @ '' student reviews from Rate My Professor. ''
                       @ ''See individual reviews below for details.''))
   \<and> (\<forall>t. ts \<noteq> [] \<and> anthropic_client ev
           \<and> messages_create ev calls (Summarize (user_message ts)) = Inr t \<longrightarrow>
           fst (summarize_reviews ev calls ts) = Inr (strip t))
   \<and> (fst (summarize_reviews ev calls ts) = Inr [] \<longleftrightarrow>
         ts \<noteq> [] \<and> anthropic_client ev
         \<and> (\<exists>t. messages_create ev calls (Summarize (user_message ts)) = Inr t
                \<and> list_all is_space t))"
  by (cases "messages_create ev calls (Summarize (user_message ts))")
     (auto simp: summarize_reviews_def fallback_summary_def Let_def str_nat_1 strip_eq_Nil)

theorem summarize_reviews_result_witness:
  "fst (summarize_reviews jane_env [] [''Great lectures, tough exams''])
     = Inr (''Based on 1 student review from Rate My Professor. ''
            @ ''See individual reviews below for details.'')
   \<and> fst (summarize_reviews offline_env [] [''Good'', ''Bad''])
     = Inr (''Based on 2 student reviews from Rate My Professor. ''
            @ ''See individual reviews below for details.'')
   \<and> fst (summarize_reviews blank_env [] []) = Inr ''No reviews available to summarize.''"
proof -
  have cfg: "\<not> anthropic_client jane_env"
    by (simp add: jane_env_def example_env_def)
  have down: "messages_create offline_env [] (Summarize (user_message [''Good'', ''Bad'']))
                = Inl RequestError"
    by (simp add: offline_env_def)
  have two: "str_nat (length [''Good'', ''Bad'']) = ''2''"
    by (simp add: str_nat.simps digit_chr_def)
  from summarize_reviews_result [of jane_env "[]" "[''Great lectures, tough exams'']"] cfg
  have a: "fst (summarize_reviews jane_env [] [''Great lectures, tough exams''])
     = Inr (''Based on 1 student review from Rate My Professor. ''
            @ ''See individual reviews below for details.'')"
    by simp
  from summarize_reviews_result [of offline_env "[]" "[''Good'', ''Bad'']"] down two
  have b: "fst (summarize_reviews offline_env [] [''Good'', ''Bad''])
     = Inr (''Based on 2 student reviews from Rate My Professor. ''
            @ ''See individual reviews below for details.'')"
    by simp
  from summarize_reviews_result [of blank_env "[]" "[]"]
  have c: "fst (summarize_reviews blank_env [] []) = Inr ''No reviews available to summarize.''"
    by blast
  from a b c show ?thesis
    by blast
qed

text \<open>
  The claim as first stated, that the result is never empty, fails for a generator that
  answers with two blanks.
\<close>

theorem summarize_reviews_empty_counterexample:
  "fst (summarize_reviews blank_env [] [''Great lectures, tough exams'']) = Inr []"
  by code_simp

subsection \<open>Sanitizing raw reviews\<close>

lemma sanitize_edge_text:
  "sanitize_edge e = Inr (Some d) \<Longrightarrow> dict_text d \<noteq> []"
  by (auto simp: sanitize_edge_def bind_eq_Inr split: if_splits)

lemma sanitize_edges_texts:
  "sanitize_edges es = Inr ds \<Longrightarrow>
     list_all (\<lambda>d. dict_text d \<noteq> []) ds
     \<and> length ds = length (filter (\<lambda>e. sanitize_edge e \<noteq> Inr None) es)"
proof (induction es arbitrary: ds)
  case Nil
  then show ?case by simp
next
  case (Cons e es)
  from Cons.prems obtain r rs where
    r: "sanitize_edge e = Inr r" and rs: "sanitize_edges es = Inr rs"
    and ds: "ds = (case r of None \<Rightarrow> rs | Some d \<Rightarrow> d # rs)"
    by (auto simp: bind_eq_Inr)
  from Cons.IH [OF rs] r ds show ?case
    by (cases r) (auto dest: sanitize_edge_text)
qed

lemma fetch_reviews_texts:
  "fst (fetch_reviews ev calls pid k) = Inr ds \<Longrightarrow> list_all (\<lambda>d. dict_text d \<noteq> []) ds"
  by (auto simp: fetch_reviews_def Let_def bind_eq_Inr split: sum.splits
      dest: sanitize_edges_texts)

lemma blank_comment_dropped:
  assumes "subscript e ''node'' = Inr (JObj kvs)"
    and "map_of kvs ''comment'' = None \<or> map_of kvs ''comment'' = Some JNull
         \<or> (\<exists>s. map_of kvs ''comment'' = Some (JStr s) \<and> list_all is_space s)"
  shows "sanitize_edge e = Inr None"
  using assms
  by (auto simp: sanitize_edge_def comment_of_def py_or_def strip_eq_Nil)


lemma keep_clean_subset:
  "fst (keep_clean ev calls rs) = Inr kept \<Longrightarrow> set kept \<subseteq> set rs"
proof (induction rs arbitrary: calls kept)
  case Nil
  then show ?case by simp
next
  case (Cons r rs)
  obtain o1 c1 where a: "is_abusive ev calls (dict_text r) = (o1, c1)"
    by (cases "is_abusive ev calls (dict_text r)")
  obtain o2 c2 where k: "keep_clean ev c1 rs = (o2, c2)"
    by (cases "keep_clean ev c1 rs")
  from Cons.prems a k obtain b kept' where
    "o1 = Inr b" and o2: "o2 = Inr kept'" and kept: "kept = (if b then kept' else r # kept')"
    by (cases o1; cases o2) auto
  from Cons.IH [of c1 kept'] k o2 have "set kept' \<subseteq> set rs"
    by simp
  with kept show ?case
    by auto
qed

lemma make_reviews_texts:
  "make_reviews ev rs = Inr xs \<Longrightarrow> map review_text xs = map dict_text rs"
  by (induction rs arbitrary: xs) (auto simp: bind_eq_Inr make_review_def)

lemma build_result_reviews:
  "build_result ev prof summ rs = Inr r \<Longrightarrow> make_reviews ev rs = Inr (reviews r)"
  by (auto simp: build_result_def bind_eq_Inr)

lemma assemble_build:
  assumes "fst (assemble ev calls prof) = Inr r"
  shows "\<exists>pid calls1 raw calls2 clean summ.
           subscript prof ''id'' = Inr pid
           \<and> fst (fetch_reviews ev calls pid 5) = Inr raw
           \<and> snd (fetch_reviews ev calls pid 5) = calls1
           \<and> fst (keep_clean ev calls1 raw) = Inr clean
           \<and> snd (keep_clean ev calls1 raw) = calls2
           \<and> fst (summarize_reviews ev calls2 (map dict_text clean)) = Inr summ
           \<and> build_result ev prof summ clean = Inr r"
  using assms
  by (auto simp: assemble_def split: sum.splits prod.splits)

lemma assemble_review_texts:
  assumes "fst (assemble ev calls prof) = Inr r"
  shows "list_all (\<lambda>rv. review_text rv \<noteq> []) (reviews r)"
proof -
  from assemble_build [OF assms] obtain pid calls1 raw clean summ where
    raw: "fst (fetch_reviews ev calls pid 5) = Inr raw"
    and clean: "fst (keep_clean ev calls1 raw) = Inr clean"
    and build: "build_result ev prof summ clean = Inr r"
    by blast
  from fetch_reviews_texts [OF raw] keep_clean_subset [OF clean]
  have "\<forall>t \<in> set (map dict_text clean). t \<noteq> []"
    by (auto simp: list_all_iff)
  moreover have "map review_text (reviews r) = map dict_text clean"
    by (rule make_reviews_texts [OF build_result_reviews [OF build]])
  ultimately have "\<forall>t \<in> set (map review_text (reviews r)). t \<noteq> []"
    by simp
  then show ?thesis
    by (simp add: list_all_iff)
qed

text \<open>
  Claim C6. A review dictionary built by \<^verbatim>\<open>fetch_reviews\<close> never has an empty text: a raw
  review whose comment is empty or whitespace only is skipped, so the output has one entry
  for each raw review that is not skipped, every entry has a non-empty text, and so has
  every \<^verbatim>\<open>Review\<close> of an assembled record.
\<close>

theorem sanitized_text_never_empty:
  "(sanitize_edge e = Inr (Some d) \<longrightarrow> dict_text d \<noteq> [])
   \<and> (review_field e ''comment'' = Some (JStr s) \<and> list_all is_space s \<longrightarrow>
        sanitize_edge e = Inr None)
   \<and> (sanitize_edges es = Inr ds \<longrightarrow>
        list_all (\<lambda>d. dict_text d \<noteq> []) ds
        \<and> length ds = length (filter (\<lambda>e. sanitize_edge e \<noteq> Inr None) es))
   \<and> (fst (fetch_reviews ev calls pid k) = Inr ds' \<longrightarrow>
        list_all (\<lambda>d. dict_text d \<noteq> []) ds')
   \<and> (fst (assemble ev calls prof) = Inr r \<longrightarrow>
        list_all (\<lambda>rv. review_text rv \<noteq> []) (reviews r))"
proof -
  have "sanitize_edge e = Inr None"
    if "review_field e ''comment'' = Some (JStr s)" and "list_all is_space s"
  proof -
    from that(1) obtain kvs where "subscript e ''node'' = Inr (JObj kvs)"
      and "map_of kvs ''comment'' = Some (JStr s)"
      by (auto simp: review_field_def split: sum.splits json.splits)
    with that(2) show ?thesis
      by (simp add: blank_comment_dropped)
  qed
  note blank = this
  show ?thesis
  proof (intro conjI impI)
    assume "sanitize_edge e = Inr (Some d)"
    then show "dict_text d \<noteq> []"
      by (rule sanitize_edge_text)
  next
    assume "review_field e ''comment'' = Some (JStr s) \<and> list_all is_space s"
    then show "sanitize_edge e = Inr None"
      using blank by blast
  next
    assume a: "sanitize_edges es = Inr ds"
    from sanitize_edges_texts [OF a] show "list_all (\<lambda>d. dict_text d \<noteq> []) ds"
      by (rule conjunct1)
    from sanitize_edges_texts [OF a]
    show "length ds = length (filter (\<lambda>e. sanitize_edge e \<noteq> Inr None) es)"
      by (rule conjunct2)
  next
    assume "fst (fetch_reviews ev calls pid k) = Inr ds'"
    then show "list_all (\<lambda>d. dict_text d \<noteq> []) ds'"
      by (rule fetch_reviews_texts)
  next
    assume "fst (assemble ev calls prof) = Inr r"
    then show "list_all (\<lambda>rv. review_text rv \<noteq> []) (reviews r)"
      by (rule assemble_review_texts)
  qed
qed

theorem sanitized_text_never_empty_witness:
  "fst (fetch_reviews jane_env [] (JStr ''VGVhY2hlci0x'') 5)
     = Inr [\<lparr>dict_rating = Finite 4, dict_text = ''Great lectures, tough exams'',
             dict_course = JStr ''TCSS 342'', dict_date = JStr ''2024-03-01''\<rparr>]
   \<and> sanitize_edge (example_review (JStr ''  '') (JInt 5)) = Inr None
   \<and> sanitize_edges two_reviews
       = Inr [\<lparr>dict_rating = Finite 4, dict_text = ''Great lectures, tough exams'',
               dict_course = JStr ''TCSS 342'', dict_date = JStr ''2024-03-01''\<rparr>]
   \<and> list_all (\<lambda>d. dict_text d \<noteq> [])
        [\<lparr>dict_rating = Finite 4, dict_text = ''Great lectures, tough exams'',
          dict_course = JStr ''TCSS 342'', dict_date = JStr ''2024-03-01''\<rparr>]
   \<and> length two_reviews = 2"
proof -
  let ?d = "\<lparr>dict_rating = Finite 4, dict_text = ''Great lectures, tough exams'',
             dict_course = JStr ''TCSS 342'', dict_date = JStr ''2024-03-01''\<rparr>"
  have f: "fst (fetch_reviews jane_env [] (JStr ''VGVhY2hlci0x'') 5) = Inr [?d]"
    by code_simp
  have s: "sanitize_edges two_reviews = Inr [?d]"
    by code_simp
  have c: "review_field (example_review (JStr ''  '') (JInt 5)) ''comment'' = Some (JStr ''  '')"
    by (simp add: review_field_def example_review_def)
  have b: "list_all is_space ''  ''"
    by (simp add: is_space_def)
  from sanitized_text_never_empty
    [of "example_review (JStr ''  '') (JInt 5)" ?d "''  ''" two_reviews "[?d]" jane_env "[]"
        "JStr ''VGVhY2hlci0x''" 5 "[?d]" jane jane_record]
  have drop: "review_field (example_review (JStr ''  '') (JInt 5)) ''comment''
                  = Some (JStr ''  '') \<and> list_all is_space ''  '' \<longrightarrow>
              sanitize_edge (example_review (JStr ''  '') (JInt 5)) = Inr None"
    and texts: "fst (fetch_reviews jane_env [] (JStr ''VGVhY2hlci0x'') 5) = Inr [?d] \<longrightarrow>
              list_all (\<lambda>d. dict_text d \<noteq> []) [?d]"
    by blast+
  from drop c b have "sanitize_edge (example_review (JStr ''  '') (JInt 5)) = Inr None"
    by blast
  moreover from texts f have "list_all (\<lambda>d. dict_text d \<noteq> []) [?d]"
    by blast
  moreover have "length two_reviews = 2"
    by (simp add: two_reviews_def)
  ultimately show ?thesis
    using f s by blast
qed






















subsection \<open>Optional fields of the assembled record\<close>

lemma build_result_fields:
  "build_result ev prof summ rs = Inr r \<Longrightarrow>
     difficulty_of prof = Inr (difficulty r) \<and> would_take_again_of prof = Inr (wouldTakeAgain r)"
  by (auto simp: build_result_def bind_eq_Inr)

lemma assemble_fields:
  assumes "fst (assemble ev calls prof) = Inr r"
  shows "difficulty_of prof = Inr (difficulty r)"
    and "would_take_again_of prof = Inr (wouldTakeAgain r)"
  using assemble_build [OF assms] build_result_fields by blast+

lemma difficulty_of_zero:
  assumes "subscript prof ''difficulty'' = Inr v" and "v = JInt 0 \<or> v = JFloat (Finite 0)"
  shows "difficulty_of prof = Inr None"
proof -
  from assms(1) obtain kvs where "prof = JObj kvs" and "map_of kvs ''difficulty'' = Some v"
    by (cases prof) (auto split: option.splits)
  with assms(2) show ?thesis
    by (auto simp: difficulty_of_def)
qed

text \<open>
  Claim C10. For a candidate whose \<^verbatim>\<open>difficulty\<close> is present and is the integer or the float
  zero, the presence test \<^verbatim>\<open>if prof.get("difficulty")\<close> is false, as it is for an absent
  value: the \<^verbatim>\<open>difficulty\<close> of every record assembled for the candidate is \<^verbatim>\<open>None\<close>.
\<close>

theorem zero_difficulty_is_absent:
  assumes "subscript prof ''difficulty'' = Inr v" and "v = JInt 0 \<or> v = JFloat (Finite 0)"
  shows "difficulty_of prof = Inr None
         \<and> (fst (assemble ev calls prof) = Inr r \<longrightarrow> difficulty r = None)"
proof -
  from assms have d: "difficulty_of prof = Inr None"
    by (rule difficulty_of_zero)
  moreover have "difficulty r = None" if "fst (assemble ev calls prof) = Inr r"
    using assemble_fields(1) [OF that] d by simp
  ultimately show ?thesis
    by blast
qed

theorem zero_difficulty_is_absent_witness:
  "subscript jane_zero ''difficulty'' = Inr (JInt 0)
   \<and> subscript jane_zero_float ''difficulty'' = Inr (JFloat (Finite 0))
   \<and> fst (assemble zero_env [] jane_zero)
       = Inr (jane_record\<lparr>difficulty := None, wouldTakeAgain := None\<rparr>)
   \<and> difficulty (jane_record\<lparr>difficulty := None, wouldTakeAgain := None\<rparr>) = None
   \<and> difficulty_of jane_zero_float = Inr None"
proof -
  have i: "subscript jane_zero ''difficulty'' = Inr (JInt 0)"
    by code_simp
  have f: "subscript jane_zero_float ''difficulty'' = Inr (JFloat (Finite 0))"
    by code_simp
  have a: "fst (assemble zero_env [] jane_zero)
       = Inr (jane_record\<lparr>difficulty := None, wouldTakeAgain := None\<rparr>)"
    by code_simp
  from zero_difficulty_is_absent [OF i, of zero_env "[]"
      "jane_record\<lparr>difficulty := None, wouldTakeAgain := None\<rparr>"] a
  have "difficulty (jane_record\<lparr>difficulty := None, wouldTakeAgain := None\<rparr>) = None"
    by blast
  moreover from zero_difficulty_is_absent [OF f, of zero_float_env "[]" jane_record]
  have "difficulty_of jane_zero_float = Inr None"
    by blast
  ultimately show ?thesis
    using i f a by blast
qed

lemma would_take_again_absent:
  "dict_get prof ''wouldTakeAgainPercent'' JNull = Inr JNull \<Longrightarrow>
     would_take_again_of prof = Inr None"
  by (simp add: would_take_again_of_def)

lemma would_take_again_int:
  assumes "subscript prof ''wouldTakeAgainPercent'' = Inr (JInt n)"
    and "\<bar>n\<bar> < 2 ^ 1024 - 2 ^ 970"
  shows "would_take_again_of prof
           = Inr (if n > 0 then Some (round1 (Finite (of_int n))) else None)"
proof -
  from assms(1) obtain kvs where "prof = JObj kvs"
    and "map_of kvs ''wouldTakeAgainPercent'' = Some (JInt n)"
    by (cases prof) (auto split: option.splits)
  with assms(2) show ?thesis
    by (auto simp: would_take_again_of_def float_of_int_def)
qed

lemma would_take_again_float:
  assumes "subscript prof ''wouldTakeAgainPercent'' = Inr (JFloat (Finite q))"
  shows "would_take_again_of prof = Inr (if q > 0 then Some (round1 (Finite q)) else None)"
proof -
  from assms obtain kvs where "prof = JObj kvs"
    and "map_of kvs ''wouldTakeAgainPercent'' = Some (JFloat (Finite q))"
    by (cases prof) (auto split: option.splits)
  then show ?thesis
    by (auto simp: would_take_again_of_def)
qed

text \<open>
  Claim C1, at the source value zero. The condition
  \<^verbatim>\<open>prof.get("wouldTakeAgainPercent") and prof["wouldTakeAgainPercent"] >= 0\<close> tests the
  truth value of the percentage before it compares it, so a percentage of zero, integer
  or float, gives a record whose \<^verbatim>\<open>wouldTakeAgain\<close> is \<^verbatim>\<open>None\<close>, not \<^verbatim>\<open>0.0\<close>.
\<close>

theorem zero_would_take_again_is_absent:
  "would_take_again_of jane_zero = Inr None
   \<and> would_take_again_of jane_zero_float = Inr None
   \<and> fst (get_professor zero_env empty_world ''Jane Doe'')
       = Inr (jane_record\<lparr>difficulty := None, wouldTakeAgain := None\<rparr>)
   \<and> fst (get_professor zero_float_env empty_world ''Jane Doe'')
       = Inr (jane_record\<lparr>difficulty := None, wouldTakeAgain := None\<rparr>)"
  by code_simp

subsection \<open>The name matcher\<close>

lemma is_space_lower_chr: "is_space (lower_chr c) = is_space c"
  by (auto simp: lower_chr_def is_space_def upper_letters_def lower_letters_def)

lemma dropWhile_lower: "dropWhile is_space (map lower_chr s) = map lower_chr (dropWhile is_space s)"
  by (induction s) (auto simp: is_space_lower_chr)

lemma strip_lower: "strip (lower s) = lower (strip s)"
  by (simp add: strip_def lstrip_def rstrip_def lower_def dropWhile_lower rev_map)

lemma is_strD: "is_str v \<Longrightarrow> \<exists>s. v = Inr (JStr s)"
  by (simp add: is_str_def split: sum.splits json.splits)

lemma is_intD: "is_int v \<Longrightarrow> \<exists>n. v = Inr (JInt n)"
  by (simp add: is_int_def split: sum.splits json.splits)

lemma candidate_okD:
  assumes "candidate_ok c"
  obtains f l n where "subscript c ''firstName'' = Inr (JStr f)"
    and "subscript c ''lastName'' = Inr (JStr l)"
    and "subscript c ''numRatings'' = Inr (JInt n)"
proof -
  from assms have a: "is_str (subscript c ''firstName'')"
    and b: "is_str (subscript c ''lastName'')"
    and d: "is_int (subscript c ''numRatings'')"
    by (simp_all add: candidate_ok_def)
  from is_strD [OF a] obtain f where f: "subscript c ''firstName'' = Inr (JStr f)"
    by (rule exE)
  from is_strD [OF b] obtain l where l: "subscript c ''lastName'' = Inr (JStr l)"
    by (rule exE)
  from is_intD [OF d] obtain n where n: "subscript c ''numRatings'' = Inr (JInt n)"
    by (rule exE)
  from f l n show ?thesis
    by (rule that)
qed

lemma edge_okD:
  assumes "candidate_ok (node_of e)"
  shows "subscript e ''node'' = Inr (node_of e)"
proof (cases "subscript e ''node''")
  case (Inl err)
  with assms show ?thesis
    by (simp add: node_of_def candidate_ok_def is_str_def)
next
  case (Inr c)
  then show ?thesis
    by (simp add: node_of_def)
qed

lemma edge_rated_ok:
  assumes "candidate_ok (node_of e)"
  shows "edge_rated e = Inr (0 < int_field (node_of e) ''numRatings'')"
proof -
  from assms obtain n where "subscript (node_of e) ''numRatings'' = Inr (JInt n)"
    by (rule candidate_okD)
  with edge_okD [OF assms] show ?thesis
    by (simp add: edge_rated_def int_field_def)
qed

lemma rated_nodes_ok:
  "list_all (\<lambda>e. candidate_ok (node_of e)) es \<Longrightarrow>
     rated_nodes es = Inr (filter (\<lambda>c. 0 < int_field c ''numRatings'') (map node_of es))"
  by (induction es) (simp_all add: edge_rated_ok edge_okD)

lemma lower_strip_field_ok:
  "subscript c k = Inr (JStr s) \<Longrightarrow> lower_strip_field c k = Inr (lower (strip (str_field c k)))"
  by (simp add: lower_strip_field_def str_field_def strip_lower)

lemma first_match_ok:
  "list_all candidate_ok cs \<Longrightarrow>
     first_match (split (lower query)) cs = Inr (find (confident_match query) cs)"
proof (induction cs)
  case Nil
  show ?case by simp
next
  case (Cons c cs)
  then have "candidate_ok c" and rest: "list_all candidate_ok cs"
    by simp_all
  then obtain f l where "subscript c ''firstName'' = Inr (JStr f)"
    and "subscript c ''lastName'' = Inr (JStr l)"
    by (auto elim: candidate_okD)
  then have "lower_strip_field c ''firstName'' = Inr (lower (strip (str_field c ''firstName'')))"
    and "lower_strip_field c ''lastName'' = Inr (lower (strip (str_field c ''lastName'')))"
    by (simp_all add: lower_strip_field_ok)
  with Cons.IH [OF rest] show ?case
    by (auto simp: confident_match_def)
qed

lemma match_edges_ok:
  assumes "list_all (\<lambda>e. candidate_ok (node_of e)) es"
  shows "match_edges query (JArr es) = Inr (name_matcher_spec query (map node_of es))"
proof -
  let ?rated = "filter (\<lambda>c. 0 < int_field c ''numRatings'') (map node_of es)"
  from assms have r: "rated_nodes es = Inr ?rated"
    by (rule rated_nodes_ok)
  from assms have "list_all candidate_ok ?rated"
    by (auto simp: list_all_iff)
  then have "first_match (split (lower query)) ?rated = Inr (find (confident_match query) ?rated)"
    by (rule first_match_ok)
  with r show ?thesis
    by (cases es) (simp_all add: match_edges_def name_matcher_spec_def)
qed

lemma name_matcher_spec_Some:
  "name_matcher_spec query cands = Some c \<Longrightarrow>
     c \<in> set cands \<and> 0 < int_field c ''numRatings'' \<and> confident_match query c"
  by (auto simp: name_matcher_spec_def find_Some_iff dest: nth_mem)


lemma first_match_mem:
  "first_match parts cs = Inr (Some c) \<Longrightarrow> c \<in> set cs"
  by (induction cs) (auto simp: bind_eq_Inr split: if_splits)

lemma rated_nodes_rated:
  "rated_nodes es = Inr cs \<Longrightarrow> c \<in> set cs \<Longrightarrow>
     \<exists>n. subscript c ''numRatings'' = Inr n \<and> gt_zero n = Inr True"
proof (induction es arbitrary: cs)
  case Nil
  then show ?case by simp
next
  case (Cons e es)
  from Cons.prems(1) obtain b where b: "edge_rated e = Inr b"
    by (auto simp: bind_eq_Inr)
  show ?case
  proof (cases b)
    case False
    with Cons b show ?thesis by simp
  next
    case True
    with Cons.prems(1) b obtain nd r where nd: "subscript e ''node'' = Inr nd"
      and r: "rated_nodes es = Inr r" and cs: "cs = nd # r"
      by (auto simp: bind_eq_Inr)
    from b True nd have "\<exists>n. subscript nd ''numRatings'' = Inr n \<and> gt_zero n = Inr True"
      by (auto simp: edge_rated_def bind_eq_Inr)
    with Cons.IH [OF r] Cons.prems(2) cs show ?thesis
      by auto
  qed
qed

lemma match_edges_rated:
  assumes "match_edges query edges = Inr (Some c)"
  shows "\<exists>n. subscript c ''numRatings'' = Inr n \<and> gt_zero n = Inr True"
proof -
  from assms obtain es rated where "rated_nodes es = Inr rated"
    and "first_match (split (lower query)) rated = Inr (Some c)"
    by (auto simp: match_edges_def bind_eq_Inr split: if_splits)
  then show ?thesis
    using first_match_mem rated_nodes_rated by blast
qed

lemma search_professor_edges:
  assumes "rmp_post ev calls (SearchTeachers (remove_quotes query) UWT_SCHOOL_ID) = Inr body"
    and "subscripts body [''data'', ''newSearch'', ''teachers'', ''edges''] = Inr edges"
  shows "fst (search_professor ev calls query) = match_edges query edges"
  using assms by (simp add: search_professor_def Let_def)

text \<open>
  Claim C3. On a list of candidates of the data model, the part of \<^verbatim>\<open>search_professor\<close> that
  follows the request computes the matcher of the spec: it discards the candidates with
  \<open>numRatings \<le> 0\<close> and returns the first of the others, in input order, whose trimmed
  and lowercased first and last names are both tokens of the lowercased query, or none;
  so does \<^verbatim>\<open>search_professor\<close> when the service answers with that list. What the spec's
  matcher returns is a candidate of the list with a positive \<open>numRatings\<close> that matches;
  and on any response at all, a candidate returned has a \<open>numRatings\<close> greater than 0.
\<close>

theorem name_matcher_first_rated_match:
  "(list_all (\<lambda>e. candidate_ok (node_of e)) es \<longrightarrow>
      match_edges query (JArr es) = Inr (name_matcher_spec query (map node_of es))
      \<and> (rmp_post ev calls (SearchTeachers (remove_quotes query) UWT_SCHOOL_ID) = Inr body
          \<and> subscripts body [''data'', ''newSearch'', ''teachers'', ''edges''] = Inr (JArr es)
          \<longrightarrow> fst (search_professor ev calls query)
                = Inr (name_matcher_spec query (map node_of es))))
   \<and> (name_matcher_spec query cands = Some c \<longrightarrow>
        c \<in> set cands \<and> 0 < int_field c ''numRatings'' \<and> confident_match query c)
   \<and> (match_edges query edges = Inr (Some c') \<longrightarrow>
        (\<exists>n. subscript c' ''numRatings'' = Inr n \<and> gt_zero n = Inr True))"
proof (intro conjI impI)
  assume ok: "list_all (\<lambda>e. candidate_ok (node_of e)) es"
  then show m: "match_edges query (JArr es) = Inr (name_matcher_spec query (map node_of es))"
    by (rule match_edges_ok)
  assume "rmp_post ev calls (SearchTeachers (remove_quotes query) UWT_SCHOOL_ID) = Inr body
          \<and> subscripts body [''data'', ''newSearch'', ''teachers'', ''edges''] = Inr (JArr es)"
  then have "fst (search_professor ev calls query) = match_edges query (JArr es)"
    by (simp add: search_professor_edges)
  with m show "fst (search_professor ev calls query)
                = Inr (name_matcher_spec query (map node_of es))"
    by simp
next
  assume s: "name_matcher_spec query cands = Some c"
  from name_matcher_spec_Some [OF s] show "c \<in> set cands"
    by blast
  from name_matcher_spec_Some [OF s] show "0 < int_field c ''numRatings''"
    by blast
  from name_matcher_spec_Some [OF s] show "confident_match query c"
    by blast
next
  assume "match_edges query edges = Inr (Some c')"
  then show "\<exists>n. subscript c' ''numRatings'' = Inr n \<and> gt_zero n = Inr True"
    by (rule match_edges_rated)
qed

theorem name_matcher_first_rated_match_witness:
  "list_all (\<lambda>e. candidate_ok (node_of e)) matcher_edges
   \<and> map node_of matcher_edges = matcher_candidates
   \<and> match_edges ''Dr  jane DOE'' (JArr matcher_edges)
       = Inr (Some (example_candidate '' JANE'' ''Doe '' 3 JNull JNull))
   \<and> match_edges ''Doe'' (JArr matcher_edges) = Inr None
   \<and> 0 < int_field (example_candidate '' JANE'' ''Doe '' 3 JNull JNull) ''numRatings''"
proof -
  let ?c = "example_candidate '' JANE'' ''Doe '' 3 JNull JNull"
  have ok: "list_all (\<lambda>e. candidate_ok (node_of e)) matcher_edges"
    by code_simp
  have nodes: "map node_of matcher_edges = matcher_candidates"
    by code_simp
  have hit: "name_matcher_spec ''Dr  jane DOE'' matcher_candidates = Some ?c"
    by code_simp
  have miss: "name_matcher_spec ''Doe'' matcher_candidates = None"
    by code_simp
  from name_matcher_first_rated_match
    [of matcher_edges "''Dr  jane DOE''" offline_env "[]" JNull matcher_candidates ?c
        JNull JNull] ok nodes hit
  have a: "match_edges ''Dr  jane DOE'' (JArr matcher_edges) = Inr (Some ?c)"
    and b: "0 < int_field ?c ''numRatings''"
    by simp_all
  from name_matcher_first_rated_match
    [of matcher_edges "''Doe''" offline_env "[]" JNull matcher_candidates ?c JNull JNull]
    ok nodes miss
  have c: "match_edges ''Doe'' (JArr matcher_edges) = Inr None"
    by simp
  from ok nodes a b c show ?thesis
    by blast
qed

end
